theory Spec2Isabelle
  imports Main
begin

section \<open>The notebook's values\<close>

text \<open>
  The notebook \<^verbatim>\<open>cookbook/integration_anthropic_joke_example.ipynb\<close> holds three code
  cells for a Python 3 kernel: a package installation by the \<^verbatim>\<open>%pip\<close> magic, the
  imports followed by \<^verbatim>\<open>Traceloop.init()\<close>, and the decorated definition of
  \<^verbatim>\<open>joke_workflow\<close> followed by one call of it.

  Python values are dynamically typed, so the literals of the source are embedded in a
  datatype of values that keeps the tag of each one. A dictionary literal and the keyword
  arguments of a call are association lists in the order they are written.
\<close>

datatype pyval =
    PInt int
  | PStr string
  | PList "pyval list"
  | PDict "(string \<times> pyval) list"

type_synonym kwargs = "(string \<times> pyval) list"

text \<open>
  The response of the model provider is an object of the provider's library. The notebook
  reads one attribute of it, \<^verbatim>\<open>content\<close>; every other attribute is the extension part
  of the record.
\<close>

record 'b response =
  content :: 'b

section \<open>Effects\<close>

text \<open>
  What a run does to the outside is a history of events, oldest first: the package
  installation, the calls into the two libraries with the arguments they were given, the
  text handed to standard output, and the results that the notebook shows for its cells.
  The trace records that the tracing library emits are kept apart from it.
\<close>

datatype event =
    PipInstall "string list"
  | TraceloopInit
  | WorkflowDef kwargs
  | Call_joke_workflow
  | AnthropicNew
  | MessagesCreate kwargs
  | Write string
  | ExecuteResult string

record world =
  history :: "event list"
  traces :: "string list"

definition emit :: "event \<Rightarrow> world \<Rightarrow> world" where
  "emit ev w = w\<lparr>history := history w @ [ev]\<rparr>"

fun requests :: "event list \<Rightarrow> kwargs list" where
  "requests [] = []"
| "requests (MessagesCreate kw # evs) = kw # requests evs"
| "requests (ev # evs) = requests evs"


fun written :: "event list \<Rightarrow> string" where
  "written [] = []"
| "written (Write s # evs) = s @ written evs"
| "written (ev # evs) = written evs"

definition stdout :: "world \<Rightarrow> string" where
  "stdout w = written (history w)"

section \<open>The model provider's client\<close>

text \<open>
  The client library is not part of the repository. Its behaviour is a parameter of the
  model: the client object that \<^verbatim>\<open>Anthropic()\<close> builds, the outcome of
  \<^verbatim>\<open>messages.create\<close> on that client and the keyword arguments (an exception of the
  library, or a response), and the text that Python's \<^verbatim>\<open>str\<close> gives for the content
  of a response. Building the client is taken to complete: the failures the spec names
  (network, authentication, quota, malformed input) are failures of the request. Every
  theorem holds for all such environments.
\<close>

record ('e, 'c, 'b, 'z) env =
  Anthropic :: 'c
  messages_create :: "'c \<Rightarrow> kwargs \<Rightarrow> 'e + ('b, 'z) response_scheme"
  str :: "'b \<Rightarrow> string"

text \<open>
  Python's \<^verbatim>\<open>print(x)\<close> writes \<^verbatim>\<open>str(x)\<close> and a newline to standard output.
\<close>

definition print :: "('b \<Rightarrow> string) \<Rightarrow> 'b \<Rightarrow> world \<Rightarrow> world" where
  "print to_str x w = emit (Write (to_str x @ [CHR 0x0A])) w"

section \<open>The workflow\<close>

text \<open>
  The keyword arguments of the \<^verbatim>\<open>messages.create\<close> call, as the source writes them:
  \<^verbatim>\<open>max_tokens=1024, messages=[{"role": "user", "content": "Tell me a joke about
  OpenTelemetry"}], model="claude-3-opus-20240229"\<close>.
\<close>

definition create_kwargs :: kwargs where
  "create_kwargs =
     [(''max_tokens'', PInt 1024),
      (''messages'',
         PList [PDict [(''role'', PStr ''user''),
                       (''content'', PStr ''Tell me a joke about OpenTelemetry'')]]),
      (''model'', PStr ''claude-3-opus-20240229'')]"

text \<open>
  The body of \<^verbatim>\<open>joke_workflow\<close>: build the client, issue the request, print the content
  of the response, return the response. There is no \<^verbatim>\<open>try\<close> in the source, so an
  exception of \<^verbatim>\<open>messages.create\<close> leaves the function at once, with the history as
  it stands then.
\<close>

definition joke_workflow ::
  "('e, 'c, 'b, 'z) env \<Rightarrow> world \<Rightarrow> ('e + ('b, 'z) response_scheme) \<times> world" where
  "joke_workflow env w =
     (let anthropic = Anthropic env;
          w1 = emit AnthropicNew w;
          w2 = emit (MessagesCreate create_kwargs) w1
      in case messages_create env anthropic create_kwargs of
           Inl e \<Rightarrow> (Inl e, w2)
         | Inr response \<Rightarrow>
             (let w3 = print (str env) (content response) w2
              in (Inr response, w3)))"

section \<open>The tracing library and the top level\<close>


text \<open>
  Modelled from the spec: the function that the \<^verbatim>\<open>workflow\<close> decorator of the
  tracing library returns; the library is not part of the repository. The spec's contract
  for it (section 4.1): given a name and a function of no arguments, invoking the wrapped
  function executes the original function unchanged and, as a side effect owned by the
  tracing library, emits a trace record.
\<close>

definition wrapped :: "string \<Rightarrow> (world \<Rightarrow> 'r \<times> world) \<Rightarrow> world \<Rightarrow> 'r \<times> world" where
  "wrapped name f w =
     (case f w of (r, w') \<Rightarrow> (r, w'\<lparr>traces := traces w' @ [name]\<rparr>))"

text \<open>
  Modelled from the spec: the \<^verbatim>\<open>workflow\<close> decorator itself, applied where the
  function is defined. The spec gives it as one annotation accepting a single keyword, a
  workflow name string; the call is recorded with that keyword and gives the wrapped
  function.
\<close>

definition workflow ::
  "string \<Rightarrow> (world \<Rightarrow> 'r \<times> world) \<Rightarrow> world \<Rightarrow> (world \<Rightarrow> 'r \<times> world) \<times> world" where
  "workflow name f w = (wrapped name f, emit (WorkflowDef [(''name'', PStr name)]) w)"




section \<open>Two environments for concrete runs\<close>

text \<open>
  A world in which nothing has happened yet, a provider that answers every request with a
  given content and message identifier, and a provider that fails every request with a
  given error. The content is text here and \<^verbatim>\<open>str\<close> leaves it as it is; the
  \<^verbatim>\<open>repr\<close> of a response names its identifier and its content.
\<close>

definition fresh :: world where
  "fresh = \<lparr>history = [], traces = []\<rparr>"

definition replying :: "string \<Rightarrow> string \<Rightarrow> (string, unit, string, string) env" where
  "replying text ident =
     \<lparr>Anthropic = (),
      messages_create = (\<lambda>c kw. Inr \<lparr>content = text, \<dots> = ident\<rparr>),
      str = (\<lambda>s. s)\<rparr>"

definition refusing :: "string \<Rightarrow> (string, unit, string, string) env" where
  "refusing err =
     \<lparr>Anthropic = (),
      messages_create = (\<lambda>c kw. Inl err),
      str = (\<lambda>s. s)\<rparr>"


section \<open>Reading the history\<close>

lemma requests_append: "requests (xs @ ys) = requests xs @ requests ys"
  by (induction xs rule: requests.induct) simp_all


lemma written_append: "written (xs @ ys) = written xs @ written ys"
  by (induction xs rule: written.induct) simp_all

section \<open>The two ways through the workflow\<close>

lemma joke_workflow_Inl:
  assumes "messages_create env (Anthropic env) create_kwargs = Inl e"
  shows "joke_workflow env w =
           (Inl e, w\<lparr>history := history w @ [AnthropicNew, MessagesCreate create_kwargs]\<rparr>)"
  using assms by (simp add: joke_workflow_def emit_def)

lemma joke_workflow_Inr:
  assumes "messages_create env (Anthropic env) create_kwargs = Inr r"
  shows "joke_workflow env w =
           (Inr r, w\<lparr>history := history w @
              [AnthropicNew, MessagesCreate create_kwargs,
               Write (str env (content r) @ [CHR 0x0A])]\<rparr>)"
  using assms by (simp add: joke_workflow_def emit_def print_def)

lemma joke_workflow_requests:
  "requests (history (snd (joke_workflow env w))) = requests (history w) @ [create_kwargs]"
proof (cases "messages_create env (Anthropic env) create_kwargs")
  case (Inl e)
  then show ?thesis by (simp add: joke_workflow_Inl requests_append)
next
  case (Inr r)
  then show ?thesis by (simp add: joke_workflow_Inr requests_append)
qed

lemma joke_workflow_result:
  "fst (joke_workflow env w) = messages_create env (Anthropic env) create_kwargs"
  by (cases "messages_create env (Anthropic env) create_kwargs")
     (simp_all add: joke_workflow_Inl joke_workflow_Inr)

lemma replying_create:
  "messages_create (replying text ident) c kw =
     Inr \<lparr>content = text, \<dots> = ident\<rparr>"
  by (simp add: replying_def)

lemma refusing_create:
  "messages_create (refusing err) c kw = Inl err"
  by (simp add: refusing_def)

lemma replying_str: "str (replying text ident) s = s"
  by (simp add: replying_def)

section \<open>The request\<close>

text \<open>
  C1. Every invocation of \<^verbatim>\<open>joke_workflow\<close> issues one request, and the keyword
  arguments that it hands to \<^verbatim>\<open>messages.create\<close> of the client, the ones on which the
  outcome of the invocation rests, give \<^verbatim>\<open>max_tokens\<close> as the integer 1024 and
  \<^verbatim>\<open>model\<close> as the string \<^verbatim>\<open>claude-3-opus-20240229\<close>, as the source writes them.
\<close>

theorem request_max_tokens_and_model:
  "\<exists>kw. fst (joke_workflow env w) = messages_create env (Anthropic env) kw
      \<and> requests (history (snd (joke_workflow env w))) = requests (history w) @ [kw]
      \<and> map_of kw ''max_tokens'' = Some (PInt 1024)
      \<and> map_of kw ''model'' = Some (PStr ''claude-3-opus-20240229'')"
proof -
  have "fst (joke_workflow env w) = messages_create env (Anthropic env) create_kwargs"
    by (rule joke_workflow_result)
  moreover have "requests (history (snd (joke_workflow env w))) =
      requests (history w) @ [create_kwargs]"
    by (rule joke_workflow_requests)
  moreover have "map_of create_kwargs ''max_tokens'' = Some (PInt 1024)"
    by (simp add: create_kwargs_def)
  moreover have "map_of create_kwargs ''model'' = Some (PStr ''claude-3-opus-20240229'')"
    by (simp add: create_kwargs_def)
  ultimately show ?thesis by blast
qed

text \<open>
  C2. The keyword arguments that every invocation hands to \<^verbatim>\<open>messages.create\<close> of the
  client, its one request, have the fixed shape: the keywords are \<^verbatim>\<open>max_tokens\<close>,
  \<^verbatim>\<open>messages\<close> and \<^verbatim>\<open>model\<close>; \<^verbatim>\<open>max_tokens\<close> is an integer and \<^verbatim>\<open>model\<close> a
  string; \<^verbatim>\<open>messages\<close> is a list of exactly one dictionary, whose keys are
  \<^verbatim>\<open>role\<close> and \<^verbatim>\<open>content\<close>, the role being the string \<^verbatim>\<open>user\<close> and the content
  a string.
\<close>

theorem request_fixed_shape:
  "\<exists>kw n c m.
      kw = [(''max_tokens'', PInt n),
            (''messages'', PList [PDict [(''role'', PStr ''user''), (''content'', PStr c)]]),
            (''model'', PStr m)]
      \<and> fst (joke_workflow env w) = messages_create env (Anthropic env) kw
      \<and> requests (history (snd (joke_workflow env w))) = requests (history w) @ [kw]"
proof -
  have "create_kwargs =
      [(''max_tokens'', PInt 1024),
       (''messages'',
          PList [PDict [(''role'', PStr ''user''),
                        (''content'', PStr ''Tell me a joke about OpenTelemetry'')]]),
       (''model'', PStr ''claude-3-opus-20240229'')]"
    by (simp add: create_kwargs_def)
  moreover have "fst (joke_workflow env w) =
      messages_create env (Anthropic env) create_kwargs"
    by (rule joke_workflow_result)
  moreover have "requests (history (snd (joke_workflow env w))) =
      requests (history w) @ [create_kwargs]"
    by (rule joke_workflow_requests)
  ultimately show ?thesis by blast
qed

text \<open>
  C3. The one user message of every invocation's request has the content
  \<^verbatim>\<open>Tell me a joke about OpenTelemetry\<close>; and when the call to the provider gives a
  response, the invocation ends without an error and standard output has grown by the
  text of the response's content and a newline.
\<close>

theorem prompt_sent_and_content_printed:
  "(\<exists>n m. requests (history (snd (joke_workflow env w))) = requests (history w) @
      [[(''max_tokens'', n),
        (''messages'',
           PList [PDict [(''role'', PStr ''user''),
                         (''content'', PStr ''Tell me a joke about OpenTelemetry'')]]),
        (''model'', m)]])
   \<and> (messages_create env (Anthropic env) create_kwargs = Inr r \<longrightarrow>
        fst (joke_workflow env w) = Inr r
        \<and> stdout (snd (joke_workflow env w)) = stdout w @ str env (content r) @ [CHR 0x0A])"
  by (simp add: joke_workflow_requests create_kwargs_def joke_workflow_Inr stdout_def
      written_append)

theorem prompt_sent_and_content_printed_witness:
  "messages_create (replying ''A span walks into a bar.'' ''msg_01'')
      (Anthropic (replying ''A span walks into a bar.'' ''msg_01'')) create_kwargs =
      Inr \<lparr>content = ''A span walks into a bar.'', \<dots> = ''msg_01''\<rparr>
   \<and> fst (joke_workflow (replying ''A span walks into a bar.'' ''msg_01'') fresh) =
      Inr \<lparr>content = ''A span walks into a bar.'', \<dots> = ''msg_01''\<rparr>
   \<and> stdout (snd (joke_workflow (replying ''A span walks into a bar.'' ''msg_01'') fresh)) =
      ''A span walks into a bar.'' @ [CHR 0x0A]"
  using prompt_sent_and_content_printed
    [of "replying ''A span walks into a bar.'' ''msg_01''" fresh
        "\<lparr>content = ''A span walks into a bar.'', \<dots> = ''msg_01''\<rparr>"]
  by (simp add: replying_create replying_str fresh_def stdout_def)

section \<open>The annotation\<close>


text \<open>
  C5. The decorated \<^verbatim>\<open>joke_workflow\<close>, as the top level binds it, gives in every world
  and for every outcome of the provider's call the result of the undecorated function (the
  same response, or the same error), with the same history and so the same standard output;
  the two differ in the trace record alone.
\<close>

theorem decorated_joke_workflow_equivalent:
  "fst (fst (workflow ''pirate_joke_generator'' (joke_workflow env) w0) w) =
     fst (joke_workflow env w)
   \<and> history (snd (fst (workflow ''pirate_joke_generator'' (joke_workflow env) w0) w)) =
     history (snd (joke_workflow env w))
   \<and> stdout (snd (fst (workflow ''pirate_joke_generator'' (joke_workflow env) w0) w)) =
     stdout (snd (joke_workflow env w))
   \<and> traces (snd (fst (workflow ''pirate_joke_generator'' (joke_workflow env) w0) w)) =
     traces (snd (joke_workflow env w)) @ [''pirate_joke_generator'']"
  by (simp add: workflow_def wrapped_def stdout_def split: prod.split)

section \<open>Failure and success of the request\<close>

text \<open>
  C6. When the call to the provider fails, the invocation ends with that very error, not
  with a response; standard output is as it was before; and the request was issued once,
  so it was not tried again.
\<close>

theorem failure_propagates:
  assumes "messages_create env (Anthropic env) create_kwargs = Inl e"
  shows "fst (joke_workflow env w) = Inl e
       \<and> stdout (snd (joke_workflow env w)) = stdout w
       \<and> requests (history (snd (joke_workflow env w))) = requests (history w) @ [create_kwargs]"
  using assms by (simp add: joke_workflow_Inl stdout_def written_append requests_append)

theorem failure_propagates_witness:
  "messages_create (refusing ''overloaded_error'') (Anthropic (refusing ''overloaded_error''))
      create_kwargs = Inl ''overloaded_error''
   \<and> fst (joke_workflow (refusing ''overloaded_error'') fresh) = Inl ''overloaded_error''
   \<and> stdout (snd (joke_workflow (refusing ''overloaded_error'') fresh)) = stdout fresh
   \<and> requests (history (snd (joke_workflow (refusing ''overloaded_error'') fresh))) =
       requests (history fresh) @ [create_kwargs]"
  using failure_propagates [of "refusing ''overloaded_error''" "''overloaded_error''" fresh]
  by (simp add: refusing_create)

text \<open>
  C7, as stated, fails where the call to the provider fails: the request is issued, and
  then nothing is printed and no response is returned.
\<close>

theorem prints_then_returns_counterexample:
  "joke_workflow (refusing ''overloaded_error'') fresh =
     (Inl ''overloaded_error'',
      \<lparr>history = [AnthropicNew, MessagesCreate create_kwargs], traces = []\<rparr>)"
  by (simp add: joke_workflow_Inl refusing_create fresh_def)

text \<open>
  C7, amended. Every invocation issues exactly one request, the one of the source; and
  when that request gives a response, the invocation adds to the history the building of
  the client, the request and the printing of the response's content, in this order and
  nothing else, and then returns the response.
\<close>

theorem one_request_then_print_then_return:
  "requests (history (snd (joke_workflow env w))) = requests (history w) @ [create_kwargs]
   \<and> (\<forall>r. messages_create env (Anthropic env) create_kwargs = Inr r \<longrightarrow>
        joke_workflow env w =
          (Inr r, w\<lparr>history := history w @
             [AnthropicNew, MessagesCreate create_kwargs,
              Write (str env (content r) @ [CHR 0x0A])]\<rparr>))"
  by (simp add: joke_workflow_requests joke_workflow_Inr)

theorem one_request_then_print_then_return_witness:
  "messages_create (replying ''Why?'' ''msg_02'') (Anthropic (replying ''Why?'' ''msg_02''))
      create_kwargs = Inr \<lparr>content = ''Why?'', \<dots> = ''msg_02''\<rparr>
   \<and> joke_workflow (replying ''Why?'' ''msg_02'') fresh =
       (Inr \<lparr>content = ''Why?'', \<dots> = ''msg_02''\<rparr>,
        \<lparr>history = [AnthropicNew, MessagesCreate create_kwargs, Write (''Why?'' @ [CHR 0x0A])],
         traces = []\<rparr>)"
  using one_request_then_print_then_return [of "replying ''Why?'' ''msg_02''" fresh]
  by (simp add: replying_create replying_str fresh_def)

text \<open>
  C8. Of the response, standard output depends on the content alone: two invocations from
  the same world whose responses have the same content, whatever their other fields, leave
  the same text on standard output.
\<close>

theorem printed_depends_on_content_only:
  assumes "messages_create env1 (Anthropic env1) create_kwargs = Inr r1"
    and "messages_create env2 (Anthropic env2) create_kwargs = Inr r2"
    and "str env1 = str env2"
    and "content r1 = content r2"
  shows "stdout (snd (joke_workflow env1 w)) = stdout (snd (joke_workflow env2 w))"
  using assms by (simp add: joke_workflow_Inr stdout_def written_append)

theorem printed_depends_on_content_only_witness:
  "messages_create (replying ''Why?'' ''msg_03'') (Anthropic (replying ''Why?'' ''msg_03''))
      create_kwargs = Inr \<lparr>content = ''Why?'', \<dots> = ''msg_03''\<rparr>
   \<and> messages_create (replying ''Why?'' ''msg_04'') (Anthropic (replying ''Why?'' ''msg_04''))
      create_kwargs = Inr \<lparr>content = ''Why?'', \<dots> = ''msg_04''\<rparr>
   \<and> str (replying ''Why?'' ''msg_03'') = str (replying ''Why?'' ''msg_04'')
   \<and> content \<lparr>content = ''Why?'', \<dots> = ''msg_03''\<rparr> =
       content \<lparr>content = ''Why?'', \<dots> = ''msg_04''\<rparr>
   \<and> stdout (snd (joke_workflow (replying ''Why?'' ''msg_03'') fresh)) =
       stdout (snd (joke_workflow (replying ''Why?'' ''msg_04'') fresh))"
proof -
  have a: "messages_create (replying ''Why?'' ''msg_03'')
      (Anthropic (replying ''Why?'' ''msg_03'')) create_kwargs =
      Inr \<lparr>content = ''Why?'', \<dots> = ''msg_03''\<rparr>"
    by (rule replying_create)
  have b: "messages_create (replying ''Why?'' ''msg_04'')
      (Anthropic (replying ''Why?'' ''msg_04'')) create_kwargs =
      Inr \<lparr>content = ''Why?'', \<dots> = ''msg_04''\<rparr>"
    by (rule replying_create)
  have s: "str (replying ''Why?'' ''msg_03'') = str (replying ''Why?'' ''msg_04'')"
    by (simp add: replying_def)
  have c: "content \<lparr>content = ''Why?'', \<dots> = ''msg_03''\<rparr> =
      content \<lparr>content = ''Why?'', \<dots> = ''msg_04''\<rparr>"
    by simp
  show ?thesis
    using printed_depends_on_content_only [OF a b s c, of fresh] a b s
    by simp
qed

text \<open>
  C9. When the call to the provider gives a response, the invocation returns that
  response, equal to it in the content and in every other field.
\<close>

theorem response_returned_unmodified:
  assumes "messages_create env (Anthropic env) create_kwargs = Inr r"
  shows "fst (joke_workflow env w) = Inr r"
  using assms by (simp add: joke_workflow_Inr)

theorem response_returned_unmodified_witness:
  "messages_create (replying ''Why?'' ''msg_05'') (Anthropic (replying ''Why?'' ''msg_05''))
      create_kwargs = Inr \<lparr>content = ''Why?'', \<dots> = ''msg_05''\<rparr>
   \<and> fst (joke_workflow (replying ''Why?'' ''msg_05'') fresh) =
       Inr \<lparr>content = ''Why?'', \<dots> = ''msg_05''\<rparr>"
  using response_returned_unmodified
    [of "replying ''Why?'' ''msg_05''" "\<lparr>content = ''Why?'', \<dots> = ''msg_05''\<rparr>" fresh]
  by (simp add: replying_create)

section \<open>The order of the top level\<close>



end
